theory Spec2Isabelle
  imports Complex_Main
begin

section \<open>Data model\<close>

text \<open>
  The two classes of the repository are \<^verbatim>\<open>Puppyteer\<close> (the manager of the one browser,
  its pool of reusable tabs and the two mutexes) and \<^verbatim>\<open>PuppyteerPage\<close> (the session
  wrapped around one tab). Everything they do to an outside collaborator (the status
  callback, the console, the two mutexes of async-mutex, timers and the puppeteer driver)
  is recorded, in order, as an event of a trace. What a collaborator answers is not
  decided by the repository: it is read from a \<open>driver\<close>, a record of functions of the
  history so far, so that two calls of one primitive may answer differently.
\<close>

type_synonym handle = nat
type_synonym page = nat
type_synonym browser = nat

datatype exn = Error string | TimeoutError string

datatype waitMode = Foreground | Background

text \<open>
  A \<^verbatim>\<open>DOMRect\<close> as \<^verbatim>\<open>isTrulyVisible\<close> returns it; \<open>rtop\<close> and \<open>rleft\<close> are its
  \<^verbatim>\<open>top\<close> and \<^verbatim>\<open>left\<close>. Each number is the value of a double; the functions
  below pass a rectangle on and test it for \<^verbatim>\<open>null\<close>, they do not compute with it.
\<close>

record rect =
  rtop :: real
  rleft :: real
  rwidth :: real
  rheight :: real

record point =
  px :: int
  py :: int

datatype event =
    FStatus string
  | ConsoleLog "string option"
  | ConsoleError exn
  | MutexAcquire
  | MutexRelease
  | BrowserMutexAcquire
  | BrowserMutexRelease
  | SetTimeout nat
  | Launch bool nat nat
  | Pages browser
  | SetViewport page int int
  | NewPage browser
  | Goto page string nat string
  | BringToFront page
  | Query page string
  | QueryAll page string
  | EvalVisible handle
  | EvalCenter handle
  | EvalScroll page point
  | NativeWait page string nat "bool option"
  | Focus handle
  | KeyboardType string nat
  | KeyboardDown string
  | KeyboardPress string
  | KeyboardUp string

record driver =
  rejects :: "event list \<Rightarrow> exn option"
  launched :: "event list \<Rightarrow> browser"
  pagesOf :: "event list \<Rightarrow> page list"
  openedPage :: "event list \<Rightarrow> page"
  found :: "event list \<Rightarrow> handle option"
  foundAll :: "event list \<Rightarrow> handle list"
  visibleRect :: "event list \<Rightarrow> rect option"
  centerOf :: "event list \<Rightarrow> point"

text \<open>
  The state: the fields of the manager, the fields of the session under study, and the
  trace. \<open>browserInst\<close> is the field \<^verbatim>\<open>_browser\<close>.
\<close>

record world =
  headless :: bool
  width :: nat
  height :: nat
  logActivity :: bool
  browserInst :: "browser option"
  availablePages :: "page list"
  activePage :: "page option"
  sessionPage :: page
  statusStack :: "string list"
  inForeground :: bool
  trace :: "event list"

type_synonym 'a res = "(exn + 'a) \<times> world"

definition emit :: "event \<Rightarrow> world \<Rightarrow> world" where
  "emit ev w = w\<lparr>trace := trace w @ [ev]\<rparr>"

text \<open>
  An awaited call of the driver: the call is logged, then the driver either rejects it
  (the \<^verbatim>\<open>await\<close> throws) or resolves it with the value it gives for this history.
\<close>

definition call :: "driver \<Rightarrow> event \<Rightarrow> (event list \<Rightarrow> 'a) \<Rightarrow> world \<Rightarrow> 'a res" where
  "call drv ev val w =
     (let w' = emit ev w in
      case rejects drv (trace w') of
        Some e \<Rightarrow> (Inl e, w')
      | None \<Rightarrow> (Inr (val (trace w')), w'))"

text \<open>Sequencing of awaited steps; an exception skips the rest.\<close>

definition andThen :: "'a res \<Rightarrow> ('a \<Rightarrow> world \<Rightarrow> 'b res) \<Rightarrow> 'b res" where
  "andThen m f = (case m of (Inl e, w) \<Rightarrow> (Inl e, w) | (Inr x, w) \<Rightarrow> f x w)"

text \<open>\<^verbatim>\<open>try { m } finally { cleanup }\<close>, for a cleanup that does not throw.\<close>

definition tryFinally :: "'a res \<Rightarrow> (world \<Rightarrow> world) \<Rightarrow> 'a res" where
  "tryFinally m cleanup = (case m of (r, w) \<Rightarrow> (r, cleanup w))"

section \<open>Status stack (page.ts, status / statusPush / statusPop)\<close>

text \<open>
  \<^verbatim>\<open>this.statusStack[this.statusStack.length - 1] ?? ""\<close>: the last entry, or the
  empty string when the stack is empty.
\<close>

definition topOr :: "string list \<Rightarrow> string" where
  "topOr st = (if st = [] then [] else last st)"

definition statusPush :: "string \<Rightarrow> world \<Rightarrow> world" where
  "statusPush msg w =
     (let prev = topOr (statusStack w);
          msg' = (if prev \<noteq> [] then prev @ '' -- '' @ msg else msg);
          w1 = emit (FStatus msg') w
      in w1\<lparr>statusStack := statusStack w1 @ [msg']\<rparr>)"

text \<open>
  \<^verbatim>\<open>statusPop(logActivity)\<close>: \<^verbatim>\<open>pop()\<close> of an empty array gives \<^verbatim>\<open>undefined\<close>
  and leaves it empty; what is logged is the removed entry (or \<^verbatim>\<open>undefined\<close>).
\<close>

definition statusPop :: "bool \<Rightarrow> world \<Rightarrow> world" where
  "statusPop logAct w =
     (let msg = (if statusStack w = [] then None else Some (last (statusStack w)));
          w1 = w\<lparr>statusStack := butlast (statusStack w)\<rparr>;
          w2 = (if logAct \<and> logActivity w1 then emit (ConsoleLog msg) w1 else w1)
      in emit (FStatus (topOr (statusStack w2))) w2)"

definition status :: "string \<Rightarrow> world \<Rightarrow> world" where
  "status msg w =
     (if statusStack w = [] then statusPush msg w
      else (let w1 = emit (FStatus msg) w
            in w1\<lparr>statusStack := (statusStack w1)[length (statusStack w1) - 1 := msg]\<rparr>))"

text \<open>The status text last published to the callback, if any.\<close>

fun published :: "event list \<Rightarrow> string option" where
  "published [] = None"
| "published (ev # evs) =
     (case published evs of
        Some m \<Rightarrow> Some m
      | None \<Rightarrow> (case ev of FStatus m \<Rightarrow> Some m | _ \<Rightarrow> None))"


section \<open>Template strings\<close>

fun showNat :: "nat \<Rightarrow> string" where
  "showNat n =
     (if n < 10 then [''0123456789'' ! n]
      else showNat (n div 10) @ [''0123456789'' ! (n mod 10)])"

declare showNat.simps [simp del]

definition showInt :: "int \<Rightarrow> string" where
  "showInt i = (if i < 0 then ''-'' @ showNat (nat (- i)) else showNat (nat i))"

text \<open>\<^verbatim>\<open>${waitIn}\<close> for an optional mode: an omitted argument prints as \<^verbatim>\<open>undefined\<close>.\<close>

definition showMode :: "waitMode option \<Rightarrow> string" where
  "showMode m =
     (case m of
        None \<Rightarrow> ''undefined''
      | Some Foreground \<Rightarrow> ''foreground''
      | Some Background \<Rightarrow> ''background'')"

section \<open>Foreground token (page.ts, acquireActivePage .. runInBackground)\<close>

text \<open>
  \<^verbatim>\<open>await this.browser.activePageMutex.acquire()\<close> is logged as \<open>MutexAcquire\<close>: the
  step stands for the moment the mutex is granted. The call of \<^verbatim>\<open>bringToFront\<close>
  that follows is a driver call like any other.
\<close>

definition acquireActivePage :: "driver \<Rightarrow> world \<Rightarrow> unit res" where
  "acquireActivePage drv w =
     (let w1 = statusPush ''Waiting for active page'' w;
          w2 = emit MutexAcquire w1;
          w3 = w2\<lparr>inForeground := True\<rparr>;
          w4 = statusPop False w3
      in call drv (BringToFront (sessionPage w4)) (\<lambda>_. ()) w4)"

definition releaseActivePage :: "world \<Rightarrow> world" where
  "releaseActivePage w = emit MutexRelease (w\<lparr>inForeground := False\<rparr>)"

text \<open>
  The function a caller passes in receives the session and may do anything with it: it is
  a function from the state to an outcome (\<open>Inl\<close>: it threw) and a new state.
\<close>

definition runInForeground :: "driver \<Rightarrow> (world \<Rightarrow> 'a res) \<Rightarrow> world \<Rightarrow> 'a res" where
  "runInForeground drv fn w =
     (if inForeground w then fn w
      else andThen (acquireActivePage drv w)
             (\<lambda>_ w1. tryFinally (fn w1) releaseActivePage))"

definition runInBackground :: "driver \<Rightarrow> (world \<Rightarrow> 'a res) \<Rightarrow> world \<Rightarrow> 'a res" where
  "runInBackground drv fn w =
     (if \<not> inForeground w then fn w
      else andThen (fn (releaseActivePage w))
             (\<lambda>r w1. andThen (acquireActivePage drv w1) (\<lambda>_ w2. (Inr r, w2))))"

section \<open>Delays (page.ts, wait / yield)\<close>

text \<open>The closure \<^verbatim>\<open>f\<close> of \<^verbatim>\<open>wait\<close>.\<close>

definition waitBody :: "nat \<Rightarrow> waitMode option \<Rightarrow> world \<Rightarrow> unit res" where
  "waitBody ms waitIn w =
     (let w1 = statusPush (''Waiting '' @ showNat ms @ ''ms in '' @ showMode waitIn) w;
          w2 = emit (SetTimeout ms) w1
      in (Inr (), statusPop False w2))"

definition wait :: "driver \<Rightarrow> nat \<Rightarrow> waitMode option \<Rightarrow> world \<Rightarrow> unit res" where
  "wait drv ms waitIn w =
     (if waitIn = Some Background then runInBackground drv (waitBody ms waitIn) w
      else waitBody ms waitIn w)"

definition yield :: "driver \<Rightarrow> world \<Rightarrow> unit res" where
  "yield drv w = wait drv 0 (Some Background) w"

text \<open>
  For each timer of a trace, whether this session held the token when the timer was
  set; the first argument says whether it holds the token at the start.
\<close>

fun delaysHeld :: "bool \<Rightarrow> event list \<Rightarrow> bool list" where
  "delaysHeld h [] = []"
| "delaysHeld h (MutexAcquire # evs) = delaysHeld True evs"
| "delaysHeld h (MutexRelease # evs) = delaysHeld False evs"
| "delaysHeld h (SetTimeout n # evs) = h # delaysHeld h evs"
| "delaysHeld h (ev # evs) = delaysHeld h evs"


section \<open>Selectors (page.ts, getSelectorImmediate .. waitForSelectorOrFail)\<close>

record selectorOptions =
  timeoutMs :: "nat option"
  waitIn :: "waitMode option"
  visible :: "bool option"

text \<open>
  \<^verbatim>\<open>isTrulyVisible\<close>: a nullish element is not visible; otherwise the test runs inside
  the browser (\<^verbatim>\<open>el.evaluate\<close>) and its answer is the driver's.
\<close>

definition isTrulyVisible :: "driver \<Rightarrow> handle option \<Rightarrow> world \<Rightarrow> (rect option) res" where
  "isTrulyVisible drv el w =
     (case el of
        None \<Rightarrow> (Inr None, w)
      | Some h \<Rightarrow> call drv (EvalVisible h) (visibleRect drv) w)"

text \<open>The loop of \<^verbatim>\<open>getSelectorImmediate\<close> over the matches of \<^verbatim>\<open>page.$$\<close>.\<close>

fun firstVisible :: "driver \<Rightarrow> handle list \<Rightarrow> world \<Rightarrow> (handle option) res" where
  "firstVisible drv [] w = (Inr None, w)"
| "firstVisible drv (h # hs) w =
     (case isTrulyVisible drv (Some h) w of
        (Inl e, w1) \<Rightarrow> (Inl e, w1)
      | (Inr r, w1) \<Rightarrow> if r \<noteq> None then (Inr (Some h), w1) else firstVisible drv hs w1)"

definition getSelectorImmediate ::
  "driver \<Rightarrow> string \<Rightarrow> bool option \<Rightarrow> world \<Rightarrow> (handle option) res" where
  "getSelectorImmediate drv selector vis w =
     (if vis = Some True
      then andThen (call drv (QueryAll (sessionPage w) selector) (foundAll drv) w)
             (\<lambda>hs w1. firstVisible drv hs w1)
      else call drv (Query (sessionPage w) selector) (found drv) w)"

text \<open>
  \<^verbatim>\<open>waitForSelector\<close>. \<^verbatim>\<open>!options.timeoutMs\<close> holds for a missing timeout and for 0.
  The \<^verbatim>\<open>try\<close> block holds the native wait only: its \<^verbatim>\<open>catch\<close> returns
  \<^verbatim>\<open>null\<close>, its \<^verbatim>\<open>finally\<close> pops the status.
\<close>

definition nativeWait :: "driver \<Rightarrow> string \<Rightarrow> selectorOptions \<Rightarrow> world \<Rightarrow> (handle option) res" where
  "nativeWait drv selector opts w =
     call drv
       (NativeWait (sessionPage w) selector
          (case timeoutMs opts of Some t \<Rightarrow> t | None \<Rightarrow> 0) (visible opts))
       (found drv) w"

text \<open>The body of the \<^verbatim>\<open>try\<close> block: the native wait, in the mode asked for.\<close>

definition nativeWaitIn :: "driver \<Rightarrow> string \<Rightarrow> selectorOptions \<Rightarrow> world \<Rightarrow> (handle option) res" where
  "nativeWaitIn drv selector opts w =
     (if waitIn opts = Some Background
      then runInBackground drv (nativeWait drv selector opts) w
      else nativeWait drv selector opts w)"

definition waitForSelector ::
  "driver \<Rightarrow> string \<Rightarrow> selectorOptions \<Rightarrow> world \<Rightarrow> (handle option) res" where
  "waitForSelector drv selector opts w =
     andThen (getSelectorImmediate drv selector (visible opts) w)
       (\<lambda>result w1.
          if result \<noteq> None then (Inr result, w1)
          else if timeoutMs opts = None \<or> timeoutMs opts = Some 0 then (Inr None, w1)
          else
            (let w2 = statusPush (''Waiting for selector '' @ selector) w1 in
             case nativeWaitIn drv selector opts w2 of
               (Inl err, w3) \<Rightarrow> (Inr None, statusPop False w3)
             | (Inr result', w3) \<Rightarrow>
                 (let w4 = statusPop False w3 in
                  if result' = None \<or> visible opts \<noteq> Some True then (Inr result', w4)
                  else getSelectorImmediate drv selector (visible opts) w4)))"

definition waitForSelectorOrFail ::
  "driver \<Rightarrow> string \<Rightarrow> selectorOptions \<Rightarrow> world \<Rightarrow> handle res" where
  "waitForSelectorOrFail drv selector opts w =
     andThen (waitForSelector drv selector opts w)
       (\<lambda>r w1.
          case r of
            None \<Rightarrow> (Inl (Error (''Couldn't find required selector: '' @ selector)), w1)
          | Some h \<Rightarrow> (Inr h, w1))"

section \<open>Scrolling and typing (page.ts, getElementCenter .. typeInElement)\<close>

definition getElementCenter :: "driver \<Rightarrow> handle \<Rightarrow> world \<Rightarrow> point res" where
  "getElementCenter drv e w = call drv (EvalCenter e) (centerOf drv) w"

text \<open>
  \<^verbatim>\<open>scrollToPoint\<close> returns the promise of \<^verbatim>\<open>page.evaluate\<close> from inside its
  \<^verbatim>\<open>try\<close>, so the status is popped as soon as the call is issued.
\<close>

definition scrollToPoint :: "driver \<Rightarrow> point \<Rightarrow> world \<Rightarrow> unit res" where
  "scrollToPoint drv pt w =
     (let w1 = statusPush (''Scrolling to '' @ showInt (px pt) @ '','' @ showInt (py pt)) w
      in tryFinally (call drv (EvalScroll (sessionPage w1) pt) (\<lambda>_. ()) w1) (statusPop False))"

text \<open>
  The \<^verbatim>\<open>do .. while\<close> of \<^verbatim>\<open>scrollToElement\<close> runs until the centre stops moving,
  which the driver need never grant: the loop takes fuel, one unit per round, and
  \<open>None\<close> is the loop that has not returned within it.
\<close>

fun scrollLoop :: "nat \<Rightarrow> driver \<Rightarrow> handle \<Rightarrow> point \<Rightarrow> world \<Rightarrow> (point res) option" where
  "scrollLoop 0 drv e prevPt w = None"
| "scrollLoop (Suc fuel) drv e prevPt w =
     (case scrollToPoint drv prevPt w of
        (Inl err, w1) \<Rightarrow> Some (Inl err, w1)
      | (Inr _, w1) \<Rightarrow>
          (case wait drv 250 (Some Foreground) w1 of
             (Inl err, w2) \<Rightarrow> Some (Inl err, w2)
           | (Inr _, w2) \<Rightarrow>
               (case getElementCenter drv e w2 of
                  (Inl err, w3) \<Rightarrow> Some (Inl err, w3)
                | (Inr currPt, w3) \<Rightarrow>
                    if px currPt \<noteq> px prevPt \<or> py currPt \<noteq> py prevPt
                    then scrollLoop fuel drv e currPt w3
                    else Some (Inr currPt, w3))))"

definition scrollToElement :: "nat \<Rightarrow> driver \<Rightarrow> handle \<Rightarrow> world \<Rightarrow> (point res) option" where
  "scrollToElement fuel drv e w =
     (case getElementCenter drv e w of
        (Inl err, w1) \<Rightarrow> Some (Inl err, w1)
      | (Inr currPt, w1) \<Rightarrow> scrollLoop fuel drv e currPt w1)"

record typeOptions =
  scrollIntoView :: "bool option"
  slowTyping :: "bool option"
  waitAfter :: "nat option"
  typeWaitIn :: "waitMode option"
  multiLinedShiftReturn :: "bool option"
  pressReturnAtEnd :: "bool option"

text \<open>
  \<^verbatim>\<open>text.split('\n')\<close> (never empty: the empty text gives one empty line) and
  \<^verbatim>\<open>line.trimEnd()\<close>, with the white space and line terminators of JavaScript that
  fit a character of eight bits.
\<close>

fun splitLines :: "string \<Rightarrow> string list" where
  "splitLines [] = [[]]"
| "splitLines (c # cs) =
     (if c = CHR 0x0A then [] # splitLines cs
      else (case splitLines cs of
              [] \<Rightarrow> [[c]]
            | l # ls \<Rightarrow> (c # l) # ls))"

definition isWhiteSpace :: "char \<Rightarrow> bool" where
  "isWhiteSpace c =
     (c = CHR 0x09 \<or> c = CHR 0x0A \<or> c = CHR 0x0B \<or> c = CHR 0x0C \<or> c = CHR 0x0D
      \<or> c = CHR 0x20 \<or> c = CHR 0xA0)"

definition trimEnd :: "string \<Rightarrow> string" where
  "trimEnd s = rev (dropWhile isWhiteSpace (rev s))"

definition shiftEnter :: "driver \<Rightarrow> world \<Rightarrow> unit res" where
  "shiftEnter drv w =
     andThen (call drv (KeyboardDown ''Shift'') (\<lambda>_. ()) w)
       (\<lambda>_ w1. andThen (call drv (KeyboardPress ''Enter'') (\<lambda>_. ()) w1)
          (\<lambda>_ w2. call drv (KeyboardUp ''Shift'') (\<lambda>_. ()) w2))"

text \<open>The loop \<^verbatim>\<open>for (let line of text.split('\n'))\<close> of the multi-line mode.\<close>

fun typeLines :: "driver \<Rightarrow> nat \<Rightarrow> string list \<Rightarrow> world \<Rightarrow> unit res" where
  "typeLines drv delay [] w = (Inr (), w)"
| "typeLines drv delay (line # rest) w =
     (case (if trimEnd line \<noteq> []
            then call drv (KeyboardType (trimEnd line) delay) (\<lambda>_. ()) w
            else (Inr (), w)) of
        (Inl err, w1) \<Rightarrow> (Inl err, w1)
      | (Inr _, w1) \<Rightarrow>
          (case shiftEnter drv w1 of
             (Inl err, w2) \<Rightarrow> (Inl err, w2)
           | (Inr _, w2) \<Rightarrow> typeLines drv delay rest w2))"

text \<open>\<^verbatim>\<open>typeInElement\<close> from the focus on, that is after the optional scroll.\<close>

definition typeFocused :: "driver \<Rightarrow> handle \<Rightarrow> string \<Rightarrow> typeOptions \<Rightarrow> world \<Rightarrow> unit res" where
  "typeFocused drv e text opts w =
     andThen (call drv (Focus e) (\<lambda>_. ()) (statusPush ''Focusing'' w))
       (\<lambda>_ w1. andThen (wait drv 200 None w1)
          (\<lambda>_ w2.
             (let w3 = statusPush (''Typing '' @ showNat (length text) @ '' characters'')
                         (statusPop False w2);
                  delay = (if slowTyping opts \<noteq> Some False then 5 else 0)
              in andThen (if multiLinedShiftReturn opts = Some True
                          then typeLines drv delay (splitLines text) w3
                          else call drv (KeyboardType text delay) (\<lambda>_. ()) w3)
                   (\<lambda>_ w4. andThen (if pressReturnAtEnd opts = Some True
                                     then call drv (KeyboardPress ''Enter'') (\<lambda>_. ()) w4
                                     else (Inr (), w4))
                      (\<lambda>_ w5.
                         (let w6 = statusPop False w5;
                              waitMs = (case waitAfter opts of Some n \<Rightarrow> n | None \<Rightarrow> 100);
                              mode = (case typeWaitIn opts of Some m \<Rightarrow> m | None \<Rightarrow> Foreground)
                          in if waitMs > 0 then wait drv waitMs (Some mode) w6
                             else (Inr (), w6)))))))"

definition typeInElement ::
  "nat \<Rightarrow> driver \<Rightarrow> handle \<Rightarrow> string \<Rightarrow> typeOptions \<Rightarrow> world \<Rightarrow> (unit res) option" where
  "typeInElement fuel drv e text opts w =
     (if scrollIntoView opts \<noteq> Some False
      then (case scrollToElement fuel drv e w of
              None \<Rightarrow> None
            | Some (Inl err, w1) \<Rightarrow> Some (Inl err, w1)
            | Some (Inr _, w1) \<Rightarrow> Some (typeFocused drv e text opts w1))
      else Some (typeFocused drv e text opts w))"

text \<open>The keyboard events of a trace.\<close>

definition isKeyboard :: "event \<Rightarrow> bool" where
  "isKeyboard ev =
     (case ev of
        KeyboardType _ _ \<Rightarrow> True
      | KeyboardDown _ \<Rightarrow> True
      | KeyboardPress _ \<Rightarrow> True
      | KeyboardUp _ \<Rightarrow> True
      | _ \<Rightarrow> False)"

section \<open>The manager (class Puppyteer: create, getPage, acceptClosedPage, addPageTask)\<close>

text \<open>
  \<^verbatim>\<open>create\<close>: the existing browser, or a launch inside
  \<^verbatim>\<open>browserMutex.runExclusive\<close>, which releases the mutex however its callback ends.
  The fixed command-line arguments of the launch are left out of the event.
\<close>

definition create :: "driver \<Rightarrow> world \<Rightarrow> browser res" where
  "create drv w =
     (case browserInst w of
        Some b \<Rightarrow> (Inr b, w)
      | None \<Rightarrow>
          (let w1 = emit BrowserMutexAcquire w in
           tryFinally
             (case browserInst w1 of
                Some b \<Rightarrow> (Inr b, w1)
              | None \<Rightarrow>
                  andThen (call drv (Launch (headless w1) (width w1) (height w1)) (launched drv) w1)
                    (\<lambda>b w2. andThen (call drv (Pages b) (pagesOf drv) w2)
                       (\<lambda>ps w3.
                          (let w4 = w3\<lparr>availablePages := availablePages w3 @ ps\<rparr> in
                           andThen (case availablePages w4 of
                                      [] \<Rightarrow> (Inr (), w4)
                                    | p # _ \<Rightarrow>
                                        if \<not> headless w4
                                        then call drv (SetViewport p (int (width w4) - 20)
                                                         (int (height w4) - 200)) (\<lambda>_. ()) w4
                                        else (Inr (), w4))
                             (\<lambda>_ w5. (Inr b, w5\<lparr>browserInst := Some b\<rparr>))))))
             (emit BrowserMutexRelease)))"

text \<open>\<^verbatim>\<open>this.availablePages.pop()\<close>: the last tab, or \<^verbatim>\<open>undefined\<close> of an empty pool.\<close>

definition popPage :: "world \<Rightarrow> page option \<times> world" where
  "popPage w =
     (if availablePages w = [] then (None, w)
      else (Some (last (availablePages w)),
            w\<lparr>availablePages := butlast (availablePages w)\<rparr>))"

definition getPage :: "driver \<Rightarrow> world \<Rightarrow> page res" where
  "getPage drv w =
     (case popPage w of
        (Some p, w1) \<Rightarrow> (Inr p, w1)
      | (None, w1) \<Rightarrow>
          andThen (create drv w1)
            (\<lambda>b w2. andThen (case popPage w2 of
                               (Some p, w3) \<Rightarrow> (Inr p, w3)
                             | (None, w3) \<Rightarrow> call drv (NewPage b) (openedPage drv) w3)
               (\<lambda>p w4. (Inr p, w4\<lparr>activePage := None\<rparr>))))"

definition acceptClosedPage :: "page \<Rightarrow> world \<Rightarrow> world" where
  "acceptClosedPage p w = w\<lparr>availablePages := availablePages w @ [p]\<rparr>"

record goOptions =
  goTimeoutMs :: "nat option"
  waitUntil :: "string option"
  waitAfterMs :: "nat option"

record taskOptions =
  url :: "string option"
  taskGoOptions :: "goOptions option"

definition goto :: "driver \<Rightarrow> string \<Rightarrow> goOptions \<Rightarrow> world \<Rightarrow> unit res" where
  "goto drv u opts w =
     (let w1 = status (''Navigating to '' @ u) w in
      andThen (call drv
                 (Goto (sessionPage w1) u
                    (case goTimeoutMs opts of Some t \<Rightarrow> t | None \<Rightarrow> 20000)
                    (case waitUntil opts of Some l \<Rightarrow> l | None \<Rightarrow> ''load''))
                 (\<lambda>_. ()) w1)
        (\<lambda>_ w2.
           case waitAfterMs opts of
             None \<Rightarrow> (Inr (), w2)
           | Some n \<Rightarrow> if n > 0 then wait drv n (Some Background) w2 else (Inr (), w2)))"

text \<open>
  \<^verbatim>\<open>new PuppyteerPage(this, page, pageInfo)\<close>: a session around the tab, with an empty
  status stack and not in the foreground.
\<close>

definition newSession :: "page \<Rightarrow> world \<Rightarrow> world" where
  "newSession p w = w\<lparr>sessionPage := p, statusStack := [], inForeground := False\<rparr>"

text \<open>
  The \<^verbatim>\<open>try\<close> block of the task that \<^verbatim>\<open>addPageTask\<close> registers, and the task
  itself, as the task runner runs it. \<^verbatim>\<open>if (config.url)\<close> holds for a url that is given
  and not empty; \<^verbatim>\<open>config.goOptions ?? {}\<close> defaults to no option.
\<close>

definition pageTaskBody :: "driver \<Rightarrow> taskOptions \<Rightarrow> (world \<Rightarrow> unit res) \<Rightarrow> world \<Rightarrow> unit res" where
  "pageTaskBody drv config executionFunction w =
     andThen (case url config of
                None \<Rightarrow> (Inr (), w)
              | Some u \<Rightarrow>
                  if u \<noteq> []
                  then goto drv u
                         (case taskGoOptions config of
                            Some g \<Rightarrow> g
                          | None \<Rightarrow> \<lparr>goTimeoutMs = None, waitUntil = None, waitAfterMs = None\<rparr>) w
                  else (Inr (), w))
       (\<lambda>_ w1. runInForeground drv executionFunction w1)"

definition addPageTask :: "driver \<Rightarrow> taskOptions \<Rightarrow> (world \<Rightarrow> unit res) \<Rightarrow> world \<Rightarrow> unit res" where
  "addPageTask drv config executionFunction w =
     andThen (getPage drv w)
       (\<lambda>p w1.
          tryFinally
            (case pageTaskBody drv config executionFunction (newSession p w1) of
               (Inl err, w2) \<Rightarrow> (Inl err, emit (ConsoleError err) w2)
             | (Inr r, w2) \<Rightarrow> (Inr r, w2))
            (acceptClosedPage p))"

section \<open>Sample inputs\<close>

text \<open>A driver that rejects nothing and finds nothing, and a manager with no browser yet.\<close>

definition quietDriver :: driver where
  "quietDriver =
     \<lparr>rejects = (\<lambda>_. None), launched = (\<lambda>_. 1), pagesOf = (\<lambda>_. [7]), openedPage = (\<lambda>_. 8),
      found = (\<lambda>_. None), foundAll = (\<lambda>_. []), visibleRect = (\<lambda>_. None),
      centerOf = (\<lambda>_. \<lparr>px = 0, py = 0\<rparr>)\<rparr>"

definition idleWorld :: world where
  "idleWorld =
     \<lparr>headless = True, width = 1000, height = 1000, logActivity = False,
      browserInst = None, availablePages = [], activePage = None,
      sessionPage = 7, statusStack = [], inForeground = False, trace = []\<rparr>"

text \<open>A function that logs once and then throws.\<close>

definition throwingFn :: "world \<Rightarrow> unit res" where
  "throwingFn w = (Inl (Error ''boom''), emit (ConsoleLog (Some ''working'')) w)"

text \<open>
  A driver that rejects \<^verbatim>\<open>page.bringToFront()\<close>, as puppeteer does for a tab that has
  been closed or a protocol call that times out.
\<close>

definition closedTabDriver :: driver where
  "closedTabDriver =
     quietDriver\<lparr>rejects :=
       (\<lambda>tr. case rev tr of
                BringToFront _ # _ \<Rightarrow> Some (Error ''Protocol error (Page.bringToFront)'')
              | _ \<Rightarrow> None)\<rparr>"

text \<open>A session that holds the token, with one status entry.\<close>

definition heldWorld :: world where
  "heldWorld = idleWorld\<lparr>inForeground := True, statusStack := [''job'']\<rparr>"

text \<open>A manager with a browser and two tabs in its pool.\<close>

definition pooledWorld :: world where
  "pooledWorld = idleWorld\<lparr>browserInst := Some 1, availablePages := [3, 4]\<rparr>"

text \<open>
  A driver whose native wait always times out, and one that rejects the queries of the
  selector \<^verbatim>\<open>a[\<close> and of no other, as \<^verbatim>\<open>page.$\<close> does for a selector that is not
  valid CSS.
\<close>

definition timeoutDriver :: driver where
  "timeoutDriver =
     quietDriver\<lparr>rejects :=
       (\<lambda>tr. case rev tr of
                NativeWait _ _ _ _ # _ \<Rightarrow> Some (TimeoutError ''Waiting failed'')
              | _ \<Rightarrow> None)\<rparr>"

definition strictDriver :: driver where
  "strictDriver =
     quietDriver\<lparr>rejects :=
       (\<lambda>tr. case rev tr of
                Query _ s # _ \<Rightarrow>
                  if s = ''a['' then Some (Error (''not a valid selector: '' @ s)) else None
              | QueryAll _ s # _ \<Rightarrow>
                  if s = ''a['' then Some (Error (''not a valid selector: '' @ s)) else None
              | _ \<Rightarrow> None)\<rparr>"

text \<open>Selector options: none given, and a timeout of 100 ms.\<close>

definition noOptions :: selectorOptions where
  "noOptions = \<lparr>timeoutMs = None, waitIn = None, visible = None\<rparr>"

definition within100 :: selectorOptions where
  "within100 = \<lparr>timeoutMs = Some 100, waitIn = None, visible = None\<rparr>"

text \<open>Multi-line typing with every other option left out, and no scrolling.\<close>

definition multiLineOptions :: typeOptions where
  "multiLineOptions =
     \<lparr>scrollIntoView = Some False, slowTyping = None, waitAfter = None, typeWaitIn = None,
      multiLinedShiftReturn = Some True, pressReturnAtEnd = None\<rparr>"

text \<open>The keyboard events of one round of the multi-line loop.\<close>

definition lineKeys :: "nat \<Rightarrow> string \<Rightarrow> event list" where
  "lineKeys delay line =
     (if trimEnd line \<noteq> [] then [KeyboardType (trimEnd line) delay] else [])
       @ [KeyboardDown ''Shift'', KeyboardPress ''Enter'', KeyboardUp ''Shift'']"

section \<open>Basic facts\<close>

lemma published_snoc: "published (tr @ [FStatus m]) = Some m"
  by (induction tr) simp_all

lemma statusStack_statusPush:
  "statusStack (statusPush msg w) =
     statusStack w @ [if topOr (statusStack w) \<noteq> [] then topOr (statusStack w) @ '' -- '' @ msg else msg]"
  by (simp add: statusPush_def emit_def Let_def)

lemma trace_statusPush:
  "trace (statusPush msg w) =
     trace w @ [FStatus (if topOr (statusStack w) \<noteq> [] then topOr (statusStack w) @ '' -- '' @ msg else msg)]"
  by (simp add: statusPush_def emit_def Let_def)

lemma statusStack_statusPop: "statusStack (statusPop la w) = butlast (statusStack w)"
  by (simp add: statusPop_def emit_def Let_def)

lemma trace_statusPop:
  "trace (statusPop la w) =
     trace w @ (if la \<and> logActivity w
                then [ConsoleLog (if statusStack w = [] then None else Some (last (statusStack w)))]
                else [])
       @ [FStatus (topOr (butlast (statusStack w)))]"
  by (simp add: statusPop_def emit_def Let_def)

lemma frame_statusPush:
  "inForeground (statusPush msg w) = inForeground w"
  "sessionPage (statusPush msg w) = sessionPage w"
  "availablePages (statusPush msg w) = availablePages w"
  "logActivity (statusPush msg w) = logActivity w"
  by (simp_all add: statusPush_def emit_def Let_def)

lemma frame_statusPop:
  "inForeground (statusPop la w) = inForeground w"
  "sessionPage (statusPop la w) = sessionPage w"
  "availablePages (statusPop la w) = availablePages w"
  "logActivity (statusPop la w) = logActivity w"
  by (simp_all add: statusPop_def emit_def Let_def)

lemma frame_emit:
  "inForeground (emit ev w) = inForeground w"
  "sessionPage (emit ev w) = sessionPage w"
  "availablePages (emit ev w) = availablePages w"
  "logActivity (emit ev w) = logActivity w"
  "statusStack (emit ev w) = statusStack w"
  "trace (emit ev w) = trace w @ [ev]"
  by (simp_all add: emit_def)

lemma call_cases:
  "call drv ev val w =
     (case rejects drv (trace w @ [ev]) of
        Some e \<Rightarrow> (Inl e, emit ev w)
      | None \<Rightarrow> (Inr (val (trace w @ [ev])), emit ev w))"
  by (simp add: call_def Let_def frame_emit split: option.splits)

lemma snd_call: "snd (call drv ev val w) = emit ev w"
  by (simp add: call_cases split: option.splits)

lemma acquireActivePage_state:
  "snd (acquireActivePage drv w) =
     w\<lparr>inForeground := True,
       trace := trace w @
         [FStatus (if topOr (statusStack w) \<noteq> []
                   then topOr (statusStack w) @ '' -- '' @ ''Waiting for active page''
                   else ''Waiting for active page''),
          MutexAcquire, FStatus (topOr (statusStack w)), BringToFront (sessionPage w)]\<rparr>"
  by (simp add: acquireActivePage_def Let_def snd_call statusPush_def statusPop_def emit_def topOr_def)

section \<open>Foreground and background\<close>

text \<open>
  A session that is already in the foreground runs the function as it is, with no second
  acquisition. Otherwise, on the path where \<^verbatim>\<open>acquireActivePage\<close> returns (the token
  is taken, the flag set, the status restored, the tab brought to the front), the
  function runs in that state, and whatever it returns, a value or an exception, the
  flag is cleared and the token released after it, and its outcome is the outcome of
  \<^verbatim>\<open>runInForeground\<close>.
\<close>

lemma runInForeground_reentrant_and_released:
  fixes fn :: "world \<Rightarrow> 'a res"
  shows "(inForeground w \<longrightarrow> runInForeground drv fn w = fn w)
       \<and> (\<not> inForeground w \<and> acquireActivePage drv w = (Inr (), w1) \<longrightarrow>
            inForeground w1
          \<and> statusStack w1 = statusStack w
          \<and> trace w1 = trace w @
              [FStatus (if topOr (statusStack w) \<noteq> []
                        then topOr (statusStack w) @ '' -- '' @ ''Waiting for active page''
                        else ''Waiting for active page''),
               MutexAcquire, FStatus (topOr (statusStack w)), BringToFront (sessionPage w)]
          \<and> runInForeground drv fn w = (fst (fn w1), releaseActivePage (snd (fn w1)))
          \<and> \<not> inForeground (snd (runInForeground drv fn w))
          \<and> trace (snd (runInForeground drv fn w)) = trace (snd (fn w1)) @ [MutexRelease])"
proof (intro conjI impI)
  assume "inForeground w"
  then show "runInForeground drv fn w = fn w" by (simp add: runInForeground_def)
next
  assume a: "\<not> inForeground w \<and> acquireActivePage drv w = (Inr (), w1)"
  then have w1: "w1 = snd (acquireActivePage drv w)" by simp
  show "inForeground w1" "statusStack w1 = statusStack w"
    by (simp_all add: w1 acquireActivePage_state)
  show "trace w1 = trace w @
              [FStatus (if topOr (statusStack w) \<noteq> []
                        then topOr (statusStack w) @ '' -- '' @ ''Waiting for active page''
                        else ''Waiting for active page''),
               MutexAcquire, FStatus (topOr (statusStack w)), BringToFront (sessionPage w)]"
    by (simp add: w1 acquireActivePage_state)
  show run: "runInForeground drv fn w = (fst (fn w1), releaseActivePage (snd (fn w1)))"
    using a by (simp add: runInForeground_def andThen_def tryFinally_def split: prod.splits)
  show "\<not> inForeground (snd (runInForeground drv fn w))"
    by (simp add: run releaseActivePage_def emit_def)
  show "trace (snd (runInForeground drv fn w)) = trace (snd (fn w1)) @ [MutexRelease]"
    by (simp add: run releaseActivePage_def emit_def)
qed

text \<open>At a function that throws, from a session outside the foreground.\<close>

lemma runInForeground_released_after_throw:
  "\<not> inForeground idleWorld
   \<and> acquireActivePage quietDriver idleWorld =
       (Inr (), idleWorld\<lparr>inForeground := True,
          trace := [FStatus ''Waiting for active page'', MutexAcquire, FStatus [], BringToFront 7]\<rparr>)
   \<and> fst (runInForeground quietDriver throwingFn idleWorld) = Inl (Error ''boom'')
   \<and> \<not> inForeground (snd (runInForeground quietDriver throwingFn idleWorld))
   \<and> trace (snd (runInForeground quietDriver throwingFn idleWorld)) =
       [FStatus ''Waiting for active page'', MutexAcquire, FStatus [], BringToFront 7,
        ConsoleLog (Some ''working''), MutexRelease]"
proof -
  have acq: "acquireActivePage quietDriver idleWorld =
       (Inr (), idleWorld\<lparr>inForeground := True,
          trace := [FStatus ''Waiting for active page'', MutexAcquire, FStatus [], BringToFront 7]\<rparr>)"
    by (simp add: acquireActivePage_def call_def statusPush_def statusPop_def emit_def Let_def
        topOr_def quietDriver_def idleWorld_def)
  have nf: "\<not> inForeground idleWorld" by (simp add: idleWorld_def)
  show ?thesis
    using runInForeground_reentrant_and_released [of idleWorld quietDriver throwingFn
        "idleWorld\<lparr>inForeground := True,
          trace := [FStatus ''Waiting for active page'', MutexAcquire, FStatus [], BringToFront 7]\<rparr>"]
      acq nf
    by (simp add: throwingFn_def emit_def releaseActivePage_def)
qed

section \<open>Status stack\<close>

text \<open>
  C3, as the code has it. \<^verbatim>\<open>statusPush\<close> joins the new message to the top entry
  only when that entry is not the empty string. So for a message \<open>A\<close> that is not empty:
  the first push stores and publishes \<open>p1\<close> (\<open>A\<close> itself on an empty stack, the top
  entry, the separator and \<open>A\<close> otherwise), the second push stores and publishes \<open>p1\<close>,
  the separator and \<open>B\<close>, and \<^verbatim>\<open>statusPop\<close> then leaves \<open>p1\<close> on top and publishes
  exactly \<open>p1\<close>.
\<close>

theorem statusPush_twice_then_pop:
  assumes "A \<noteq> []"
  shows "let p1 = (if topOr (statusStack w) \<noteq> [] then topOr (statusStack w) @ '' -- '' @ A else A);
             w2 = statusPush B (statusPush A w);
             w3 = statusPop la w2
         in statusStack w2 = statusStack w @ [p1, p1 @ '' -- '' @ B]
          \<and> trace w2 = trace w @ [FStatus p1, FStatus (p1 @ '' -- '' @ B)]
          \<and> statusStack w3 = statusStack w @ [p1]
          \<and> published (trace w3) = Some p1"
  using assms
  by (simp add: Let_def statusStack_statusPush trace_statusPush statusStack_statusPop
      trace_statusPop topOr_def published_snoc[of "_ @ _", simplified] butlast_append)

text \<open>On an empty stack: the entries \<open>A\<close> and \<open>A -- B\<close>, and \<open>A\<close> after the pop.\<close>

theorem statusPush_twice_then_pop_witness:
  "''A'' \<noteq> []
   \<and> statusStack (statusPush ''B'' (statusPush ''A'' idleWorld)) = [''A'', ''A -- B'']
   \<and> statusStack (statusPop True (statusPush ''B'' (statusPush ''A'' idleWorld))) = [''A'']
   \<and> published (trace (statusPop True (statusPush ''B'' (statusPush ''A'' idleWorld)))) = Some ''A''"
  using statusPush_twice_then_pop [of "''A''" idleWorld "''B''" True]
  by (simp add: Let_def topOr_def idleWorld_def)

text \<open>
  C3 as stated fails for the empty first message on an empty stack: the second push
  stores \<open>B\<close> alone, not the separator followed by \<open>B\<close>.
\<close>

theorem statusPush_empty_first_counterexample:
  "last (statusStack (statusPush ''B'' (statusPush [] idleWorld))) = ''B''
   \<and> last (statusStack (statusPush ''B'' (statusPush [] idleWorld))) \<noteq> [] @ '' -- '' @ ''B''"
  by (simp add: statusStack_statusPush topOr_def idleWorld_def)

text \<open>
  C10. \<^verbatim>\<open>statusPop\<close> on an empty stack: the stack stays empty, the callback receives
  the empty string (after \<^verbatim>\<open>undefined\<close> is logged, when logging is on), and nothing
  else of the session changes. \<^verbatim>\<open>statusPop\<close> has no failing path.
\<close>

theorem statusPop_empty:
  assumes "statusStack w = []"
  shows "statusStack (statusPop la w) = []
       \<and> trace (statusPop la w) =
           trace w @ (if la \<and> logActivity w then [ConsoleLog None] else []) @ [FStatus []]
       \<and> published (trace (statusPop la w)) = Some []
       \<and> inForeground (statusPop la w) = inForeground w
       \<and> availablePages (statusPop la w) = availablePages w"
  using assms
  by (simp add: statusStack_statusPop trace_statusPop frame_statusPop topOr_def
      published_snoc[of "_ @ _", simplified] published_snoc)

text \<open>With logging off and on.\<close>

theorem statusPop_empty_witness:
  "statusStack idleWorld = []
   \<and> statusStack (statusPop True idleWorld) = []
   \<and> trace (statusPop True idleWorld) = [FStatus []]
   \<and> statusStack (statusPop True (idleWorld\<lparr>logActivity := True\<rparr>)) = []
   \<and> trace (statusPop True (idleWorld\<lparr>logActivity := True\<rparr>)) = [ConsoleLog None, FStatus []]"
  using statusPop_empty [of idleWorld True] statusPop_empty [of "idleWorld\<lparr>logActivity := True\<rparr>" True]
  by (simp add: idleWorld_def)

section \<open>Leaving the foreground\<close>

text \<open>
  C2 at a function that throws. \<^verbatim>\<open>runInBackground\<close> has no \<^verbatim>\<open>finally\<close>: from a
  session in the foreground, when the function throws after the release, the outcome
  and the state are those the function left. The token is not taken again and the flag
  stays cleared.
\<close>

theorem runInBackground_throw_not_reacquired:
  fixes fn :: "world \<Rightarrow> 'a res"
  assumes "inForeground w" and "fn (releaseActivePage w) = (Inl e, w')"
  shows "runInBackground drv fn w = (Inl e, w')"
  using assms by (simp add: runInBackground_def andThen_def)

text \<open>The trace ends with the release and the function's own event.\<close>

theorem runInBackground_throw_witness:
  "inForeground heldWorld
   \<and> throwingFn (releaseActivePage heldWorld) =
       (Inl (Error ''boom''),
        heldWorld\<lparr>inForeground := False, trace := [MutexRelease, ConsoleLog (Some ''working'')]\<rparr>)
   \<and> runInBackground quietDriver throwingFn heldWorld =
       (Inl (Error ''boom''),
        heldWorld\<lparr>inForeground := False, trace := [MutexRelease, ConsoleLog (Some ''working'')]\<rparr>)"
proof -
  have h: "inForeground heldWorld" by (simp add: heldWorld_def)
  have f: "throwingFn (releaseActivePage heldWorld) =
       (Inl (Error ''boom''),
        heldWorld\<lparr>inForeground := False, trace := [MutexRelease, ConsoleLog (Some ''working'')]\<rparr>)"
    by (simp add: throwingFn_def releaseActivePage_def emit_def heldWorld_def idleWorld_def)
  show ?thesis
    using runInBackground_throw_not_reacquired [of heldWorld throwingFn "Error ''boom''"
        "heldWorld\<lparr>inForeground := False, trace := [MutexRelease, ConsoleLog (Some ''working'')]\<rparr>"
        quietDriver] h f
    by simp
qed

text \<open>When the function returns, the token is taken again before the value is handed on.\<close>

lemma runInBackground_return:
  fixes fn :: "world \<Rightarrow> 'a res"
  assumes "inForeground w" and "fn (releaseActivePage w) = (Inr r, w')"
  shows "runInBackground drv fn w =
           (case acquireActivePage drv w' of (Inl e, w2) \<Rightarrow> (Inl e, w2) | (Inr _, w2) \<Rightarrow> (Inr r, w2))"
  using assms by (simp add: runInBackground_def andThen_def split: prod.splits sum.splits)

text \<open>
  Nested in \<^verbatim>\<open>runInForeground\<close>, the same failure makes the outer \<^verbatim>\<open>finally\<close>
  release the mutex a second time, with one acquisition only.
\<close>

lemma runInForeground_then_background_throw:
  "runInForeground quietDriver (runInBackground quietDriver throwingFn) idleWorld =
     (Inl (Error ''boom''),
      idleWorld\<lparr>trace := [FStatus ''Waiting for active page'', MutexAcquire, FStatus [],
         BringToFront 7, MutexRelease, ConsoleLog (Some ''working''), MutexRelease]\<rparr>)"
  by (simp add: runInForeground_def runInBackground_def andThen_def tryFinally_def
      acquireActivePage_def call_def statusPush_def statusPop_def emit_def Let_def topOr_def
      throwingFn_def releaseActivePage_def quietDriver_def idleWorld_def)

section \<open>Delays\<close>

lemma waitBody_returns: "fst (waitBody ms m w) = Inr ()"
  by (simp add: waitBody_def Let_def)

lemma waitBody_frame:
  "inForeground (snd (waitBody ms m w)) = inForeground w"
  "sessionPage (snd (waitBody ms m w)) = sessionPage w"
  "statusStack (snd (waitBody ms m w)) = statusStack w"
  by (simp_all add: waitBody_def Let_def frame_statusPop frame_statusPush frame_emit
      statusStack_statusPop statusStack_statusPush)

lemma waitBody_trace:
  "\<exists>a b. trace (snd (waitBody ms m w)) = trace w @ [FStatus a, SetTimeout ms, FStatus b]"
  by (simp add: waitBody_def Let_def trace_statusPop trace_statusPush frame_emit)

lemma acquireActivePage_trace:
  "\<exists>a b. trace (snd (acquireActivePage drv w)) =
     trace w @ [FStatus a, MutexAcquire, FStatus b, BringToFront (sessionPage w)]"
  by (simp add: acquireActivePage_state)

lemma snd_runInBackground_held:
  fixes fn :: "world \<Rightarrow> 'a res"
  assumes "inForeground w" and "fst (fn (releaseActivePage w)) = Inr r"
  shows "snd (runInBackground drv fn w) = snd (acquireActivePage drv (snd (fn (releaseActivePage w))))"
  using assms
  by (cases "fn (releaseActivePage w)"; cases "acquireActivePage drv (snd (fn (releaseActivePage w)))")
     (auto simp: runInBackground_def andThen_def split: sum.splits)

lemma wait_background_trace:
  assumes "inForeground w"
  shows "\<exists>a b c d. trace (snd (wait drv ms (Some Background) w)) =
     trace w @ [MutexRelease, FStatus a, SetTimeout ms, FStatus b,
                FStatus c, MutexAcquire, FStatus d, BringToFront (sessionPage w)]"
proof -
  let ?w0 = "releaseActivePage w"
  let ?w1 = "snd (waitBody ms (Some Background) ?w0)"
  obtain a b where t1: "trace ?w1 = trace ?w0 @ [FStatus a, SetTimeout ms, FStatus b]"
    using waitBody_trace by blast
  obtain c d where t2: "trace (snd (acquireActivePage drv ?w1)) =
      trace ?w1 @ [FStatus c, MutexAcquire, FStatus d, BringToFront (sessionPage ?w1)]"
    using acquireActivePage_trace by blast
  have "snd (wait drv ms (Some Background) w) = snd (acquireActivePage drv ?w1)"
    using assms by (simp add: wait_def snd_runInBackground_held [OF _ waitBody_returns])
  then show ?thesis
    using t1 t2 by (simp add: waitBody_frame releaseActivePage_def emit_def)
qed

text \<open>
  C7, as the code has it. In background mode the delay goes through
  \<^verbatim>\<open>runInBackground\<close>: a session that holds the token gives it up for the delay, one
  that does not hold it delays as it is. In foreground mode, and with no mode, the delay
  runs in place: \<^verbatim>\<open>runInForeground\<close> is not called, the flag is left as it was, and
  the token is held during the delay exactly when it was held before (\<open>h\<close>). The delay
  always returns, also for 0 ms, and \<^verbatim>\<open>yield\<close> is the background delay of 0 ms.
\<close>

theorem wait_routing:
  "wait drv ms (Some Background) w = runInBackground drv (waitBody ms (Some Background)) w
   \<and> wait drv ms (Some Foreground) w = waitBody ms (Some Foreground) w
   \<and> wait drv ms None w = waitBody ms None w
   \<and> yield drv w = wait drv 0 (Some Background) w
   \<and> fst (wait drv ms (Some Foreground) w) = Inr ()
   \<and> inForeground (snd (wait drv ms (Some Foreground) w)) = inForeground w
   \<and> delaysHeld h (drop (length (trace w)) (trace (snd (wait drv ms (Some Foreground) w)))) = [h]
   \<and> (inForeground w \<longrightarrow>
        delaysHeld h (drop (length (trace w)) (trace (snd (wait drv ms (Some Background) w)))) = [False])
   \<and> (\<not> inForeground w \<longrightarrow>
        wait drv ms (Some Background) w = waitBody ms (Some Background) w
        \<and> delaysHeld h (drop (length (trace w)) (trace (snd (wait drv ms (Some Background) w)))) = [h])"
proof -
  have dh: "delaysHeld h (drop (length (trace w)) (trace (snd (waitBody ms m w)))) = [h]" for m
  proof -
    obtain a b where "trace (snd (waitBody ms m w)) = trace w @ [FStatus a, SetTimeout ms, FStatus b]"
      using waitBody_trace by blast
    then show ?thesis by simp
  qed
  have bg: "delaysHeld h (drop (length (trace w)) (trace (snd (wait drv ms (Some Background) w)))) = [False]"
    if fg: "inForeground w"
  proof -
    obtain a b c d where "trace (snd (wait drv ms (Some Background) w)) =
       trace w @ [MutexRelease, FStatus a, SetTimeout ms, FStatus b,
                FStatus c, MutexAcquire, FStatus d, BringToFront (sessionPage w)]"
      using wait_background_trace [OF fg] by blast
    then show ?thesis by simp
  qed
  show ?thesis
    using dh bg
    by (simp add: wait_def yield_def runInBackground_def waitBody_returns waitBody_frame)
qed

text \<open>From a session that holds the token, and from one that does not.\<close>

theorem wait_routing_witness:
  "inForeground heldWorld \<and> \<not> inForeground idleWorld
   \<and> delaysHeld True (drop (length (trace heldWorld))
        (trace (snd (wait quietDriver 5 (Some Background) heldWorld)))) = [False]
   \<and> delaysHeld True (drop (length (trace heldWorld))
        (trace (snd (wait quietDriver 5 (Some Foreground) heldWorld)))) = [True]
   \<and> wait quietDriver 5 (Some Background) idleWorld = waitBody 5 (Some Background) idleWorld"
proof -
  have h: "inForeground heldWorld" and i: "\<not> inForeground idleWorld"
    by (simp_all add: heldWorld_def idleWorld_def)
  show ?thesis
    using wait_routing [of quietDriver 5 heldWorld True] wait_routing [of quietDriver 5 idleWorld False] h i
    by blast
qed

text \<open>
  C7 as stated fails: a session that does not hold the token delays in foreground mode
  without taking it, and \<^verbatim>\<open>wait\<close> is not \<^verbatim>\<open>runInForeground\<close> of the delay.
\<close>

theorem wait_foreground_counterexample:
  "\<not> inForeground idleWorld
   \<and> trace (snd (wait quietDriver 5 (Some Foreground) idleWorld)) =
       [FStatus ''Waiting 5ms in foreground'', SetTimeout 5, FStatus []]
   \<and> delaysHeld (inForeground idleWorld)
        (trace (snd (wait quietDriver 5 (Some Foreground) idleWorld))) = [False]
   \<and> wait quietDriver 5 (Some Foreground) idleWorld
       \<noteq> runInForeground quietDriver (waitBody 5 (Some Foreground)) idleWorld"
  by (simp add: wait_def waitBody_def runInForeground_def andThen_def tryFinally_def
      acquireActivePage_def releaseActivePage_def call_def statusPush_def statusPop_def
      emit_def Let_def topOr_def showNat.simps showMode_def quietDriver_def idleWorld_def)

section \<open>The pool of tabs\<close>

text \<open>
  C6. With a tab in the pool, \<^verbatim>\<open>getPage\<close> pops the last tab and returns it; the
  browser field and the trace are as before, so nothing is launched and no mutex is
  taken, whatever the driver.
\<close>

theorem getPage_from_pool:
  assumes "availablePages w \<noteq> []"
  shows "getPage drv w =
           (Inr (last (availablePages w)), w\<lparr>availablePages := butlast (availablePages w)\<rparr>)
       \<and> browserInst (snd (getPage drv w)) = browserInst w
       \<and> trace (snd (getPage drv w)) = trace w"
  using assms by (simp add: getPage_def popPage_def)

text \<open>A pool of two tabs.\<close>

theorem getPage_from_pool_witness:
  "availablePages pooledWorld \<noteq> []
   \<and> getPage quietDriver pooledWorld = (Inr 4, pooledWorld\<lparr>availablePages := [3]\<rparr>)
   \<and> trace (snd (getPage quietDriver pooledWorld)) = []"
proof -
  have ne: "availablePages pooledWorld \<noteq> []" by (simp add: pooledWorld_def)
  show ?thesis
    using getPage_from_pool [OF ne, of quietDriver] ne
    by (simp add: pooledWorld_def idleWorld_def)
qed

text \<open>For contrast: an empty pool and no browser give a launch.\<close>

lemma getPage_launches_when_empty:
  "getPage quietDriver idleWorld =
     (Inr 7, idleWorld\<lparr>browserInst := Some 1,
        trace := [BrowserMutexAcquire, Launch True 1000 1000, Pages 1, BrowserMutexRelease]\<rparr>)"
  by (simp add: getPage_def popPage_def create_def andThen_def tryFinally_def call_def emit_def
      Let_def quietDriver_def idleWorld_def)

section \<open>Page tasks\<close>

lemma acquireActivePage_resolves:
  assumes "\<forall>tr. rejects drv tr = None"
  shows "fst (acquireActivePage drv w) = Inr ()"
  using assms by (simp add: acquireActivePage_def Let_def call_cases)

lemma fst_tryFinally: "fst (tryFinally m cleanup) = fst m"
  by (cases m) (simp add: tryFinally_def)

lemma snd_tryFinally: "snd (tryFinally m cleanup) = cleanup (snd m)"
  by (cases m) (simp add: tryFinally_def)

lemma runInForeground_rethrows:
  fixes fn :: "world \<Rightarrow> 'a res"
  assumes "\<forall>tr. rejects drv tr = None" and "\<forall>s. fst (fn s) = Inl e"
  shows "fst (runInForeground drv fn w) = Inl e"
proof (cases "inForeground w")
  case True
  then show ?thesis using assms(2) by (simp add: runInForeground_def)
next
  case False
  obtain w1 where a: "acquireActivePage drv w = (Inr (), w1)"
    using acquireActivePage_resolves [OF assms(1), of w]
    by (cases "acquireActivePage drv w") auto
  show ?thesis
    using False a assms(2)
    by (simp add: runInForeground_def andThen_def fst_tryFinally)
qed

lemma wait_returns:
  assumes "\<forall>tr. rejects drv tr = None"
  shows "fst (wait drv ms m w) = Inr ()"
proof (cases "m = Some Background \<and> inForeground w")
  case True
  obtain w1 where b: "waitBody ms m (releaseActivePage w) = (Inr (), w1)"
    using waitBody_returns [of ms m "releaseActivePage w"]
    by (cases "waitBody ms m (releaseActivePage w)") auto
  obtain w2 where a: "acquireActivePage drv w1 = (Inr (), w2)"
    using acquireActivePage_resolves [OF assms, of w1]
    by (cases "acquireActivePage drv w1") auto
  show ?thesis
    using True a b by (simp add: wait_def runInBackground_def andThen_def)
next
  case False
  then show ?thesis
    by (auto simp: wait_def runInBackground_def waitBody_returns)
qed

lemma goto_returns:
  assumes "\<forall>tr. rejects drv tr = None"
  shows "fst (goto drv u opts w) = Inr ()"
  using assms
  by (simp add: goto_def Let_def andThen_def call_cases wait_returns split: option.splits)

lemma pageTaskBody_rethrows:
  assumes "\<forall>tr. rejects drv tr = None" and "\<forall>s. fst (fn s) = Inl e"
  shows "fst (pageTaskBody drv config fn w) = Inl e"
proof -
  have g: "fst (goto drv u opts w) = Inr ()" for u opts
    using goto_returns [OF assms(1)] .
  show ?thesis
    unfolding pageTaskBody_def andThen_def
    using runInForeground_rethrows [OF assms] g
    by (auto split: option.splits prod.splits sum.splits simp: prod_eq_iff dest!: arg_cong[where f=fst])
qed

text \<open>
  C5. Once the task has its tab \<open>p\<close>, the outcome of the task is the outcome of its
  \<^verbatim>\<open>try\<close> block (an exception is logged and thrown again), and in the state the
  caller sees, the tab has been pushed onto the pool, whatever the outcome. In
  particular, with a driver that rejects nothing, an execution function that throws
  \<open>e\<close> makes the task throw \<open>e\<close>, with \<open>p\<close> back on the pool.
\<close>

theorem addPageTask_returns_tab:
  assumes "getPage drv w = (Inr p, w1)"
  shows "fst (addPageTask drv config fn w) = fst (pageTaskBody drv config fn (newSession p w1))
       \<and> availablePages (snd (addPageTask drv config fn w)) =
           availablePages (snd (pageTaskBody drv config fn (newSession p w1))) @ [p]
       \<and> trace (snd (addPageTask drv config fn w)) =
           trace (snd (pageTaskBody drv config fn (newSession p w1)))
             @ (case fst (pageTaskBody drv config fn (newSession p w1)) of
                  Inl err \<Rightarrow> [ConsoleError err]
                | Inr _ \<Rightarrow> [])
       \<and> ((\<forall>tr. rejects drv tr = None) \<and> (\<forall>s. fst (fn s) = Inl e) \<longrightarrow>
            fst (addPageTask drv config fn w) = Inl e
          \<and> last (availablePages (snd (addPageTask drv config fn w))) = p)"
proof -
  obtain r w2 where b: "pageTaskBody drv config fn (newSession p w1) = (r, w2)"
    by (cases "pageTaskBody drv config fn (newSession p w1)")
  have main: "addPageTask drv config fn w =
      (r, acceptClosedPage p (case r of Inl err \<Rightarrow> emit (ConsoleError err) w2 | Inr _ \<Rightarrow> w2))"
    using assms b by (simp add: addPageTask_def andThen_def tryFinally_def split: sum.splits)
  have re: "r = Inl e" if "\<forall>tr. rejects drv tr = None" "\<forall>s. fst (fn s) = Inl e"
    using pageTaskBody_rethrows [OF that, of config "newSession p w1"] b by simp
  show ?thesis
    using re by (auto simp: main b acceptClosedPage_def frame_emit split: sum.splits)
qed


text \<open>A task on a pooled tab whose function throws.\<close>

theorem addPageTask_returns_tab_witness:
  "getPage quietDriver pooledWorld = (Inr 4, pooledWorld\<lparr>availablePages := [3]\<rparr>)
   \<and> (\<forall>tr. rejects quietDriver tr = None)
   \<and> (\<forall>s. fst (throwingFn s) = Inl (Error ''boom''))
   \<and> fst (addPageTask quietDriver \<lparr>url = None, taskGoOptions = None\<rparr> throwingFn pooledWorld)
        = Inl (Error ''boom'')
   \<and> last (availablePages
        (snd (addPageTask quietDriver \<lparr>url = None, taskGoOptions = None\<rparr> throwingFn pooledWorld))) = 4"
proof -
  have g: "getPage quietDriver pooledWorld = (Inr 4, pooledWorld\<lparr>availablePages := [3]\<rparr>)"
    by (simp add: getPage_def popPage_def pooledWorld_def idleWorld_def)
  have q: "\<forall>tr. rejects quietDriver tr = None" by (simp add: quietDriver_def)
  have t: "\<forall>s. fst (throwingFn s) = Inl (Error ''boom'')" by (simp add: throwingFn_def)
  show ?thesis
    using addPageTask_returns_tab [OF g, of "\<lparr>url = None, taskGoOptions = None\<rparr>" throwingFn
        "Error ''boom''"] g q t
    by blast
qed

section \<open>Waiting for a selector\<close>

text \<open>
  \<^verbatim>\<open>waitForSelector\<close> by the outcome of its first immediate query and of the native
  wait, and \<^verbatim>\<open>waitForSelectorOrFail\<close> by the outcome of \<^verbatim>\<open>waitForSelector\<close>.
\<close>

lemma waitForSelector_cases:
  assumes f: "getSelectorImmediate drv sel (visible opts) w = (x1, w1)"
    and n: "nativeWaitIn drv sel opts (statusPush (''Waiting for selector '' @ sel) w1) = (x3, w3)"
  shows "waitForSelector drv sel opts w =
     (case x1 of
        Inl e \<Rightarrow> (Inl e, w1)
      | Inr (Some h) \<Rightarrow> (Inr (Some h), w1)
      | Inr None \<Rightarrow>
          if timeoutMs opts = None \<or> timeoutMs opts = Some 0 then (Inr None, w1)
          else (case x3 of
                  Inl err \<Rightarrow> (Inr None, statusPop False w3)
                | Inr None \<Rightarrow> (Inr None, statusPop False w3)
                | Inr (Some h) \<Rightarrow>
                    if visible opts = Some True
                    then getSelectorImmediate drv sel (visible opts) (statusPop False w3)
                    else (Inr (Some h), statusPop False w3)))"
  using f n
  by (auto simp: waitForSelector_def andThen_def Let_def split: sum.splits option.splits)

lemma waitForSelectorOrFail_cases:
  "waitForSelectorOrFail drv sel opts w =
     (case fst (waitForSelector drv sel opts w) of
        Inl e \<Rightarrow> (Inl e, snd (waitForSelector drv sel opts w))
      | Inr None \<Rightarrow>
          (Inl (Error (''Couldn't find required selector: '' @ sel)),
           snd (waitForSelector drv sel opts w))
      | Inr (Some h) \<Rightarrow> (Inr h, snd (waitForSelector drv sel opts w)))"
  by (cases "waitForSelector drv sel opts w")
     (auto simp: waitForSelectorOrFail_def andThen_def split: sum.splits option.splits)

text \<open>
  C4, as the code has it, for every driver, selector, options and state. The \<^verbatim>\<open>try\<close>
  block of \<^verbatim>\<open>waitForSelector\<close> holds the native wait only. \<open>first\<close> is the immediate
  query it starts with, \<open>waited\<close> the native wait, \<open>second\<close> the immediate query it
  ends with when the native wait has found an element and a visible one was asked for
  (\<open>recheck\<close>).
  \<^item> As long as the immediate queries the call makes are not rejected,
    \<^verbatim>\<open>waitForSelector\<close> does not throw.
  \<^item> An exception of the first query, or of the second, leaves \<^verbatim>\<open>waitForSelector\<close>
    as it is.
  \<^item> With no timeout (or 0), an absent immediate match gives \<^verbatim>\<open>null\<close> at once, in the
    state the query left.
  \<^item> An exception of the native wait, a timeout or any other error, gives \<^verbatim>\<open>null\<close>;
    so does a native wait that resolves to \<^verbatim>\<open>null\<close>.
  \<^item> \<^verbatim>\<open>waitForSelectorOrFail\<close> throws the error that carries the selector when
    \<^verbatim>\<open>waitForSelector\<close> gives \<^verbatim>\<open>null\<close>, returns the element when it gives one,
    and passes on the exception when it throws.
\<close>

theorem waitForSelector_outcomes:
  "let first = getSelectorImmediate drv sel (visible opts) w;
       noTimeout = (timeoutMs opts = None \<or> timeoutMs opts = Some 0);
       waited = nativeWaitIn drv sel opts
                  (statusPush (''Waiting for selector '' @ sel) (snd first));
       popped = statusPop False (snd waited);
       second = getSelectorImmediate drv sel (visible opts) popped;
       recheck = (fst first = Inr None \<and> \<not> noTimeout
                  \<and> (\<exists>h. fst waited = Inr (Some h)) \<and> visible opts = Some True);
       result = waitForSelector drv sel opts w;
       orFail = waitForSelectorOrFail drv sel opts w
   in (\<not> isl (fst first) \<and> (recheck \<longrightarrow> \<not> isl (fst second)) \<longrightarrow> \<not> isl (fst result))
    \<and> (\<forall>e. fst first = Inl e \<longrightarrow> result = (Inl e, snd first))
    \<and> (recheck \<longrightarrow> result = second)
    \<and> (\<forall>h. fst first = Inr (Some h) \<longrightarrow> result = (Inr (Some h), snd first))
    \<and> (fst first = Inr None \<and> noTimeout \<longrightarrow> result = (Inr None, snd first))
    \<and> (fst first = Inr None \<and> \<not> noTimeout \<and> isl (fst waited) \<longrightarrow>
          result = (Inr None, popped))
    \<and> (fst first = Inr None \<and> \<not> noTimeout \<and> fst waited = Inr None \<longrightarrow>
          result = (Inr None, popped))
    \<and> (\<forall>h. fst first = Inr None \<and> \<not> noTimeout \<and> fst waited = Inr (Some h)
             \<and> visible opts \<noteq> Some True \<longrightarrow>
          result = (Inr (Some h), popped))
    \<and> (fst result = Inr None \<longrightarrow>
          orFail = (Inl (Error (''Couldn't find required selector: '' @ sel)), snd result))
    \<and> (\<forall>h. fst result = Inr (Some h) \<longrightarrow> orFail = (Inr h, snd result))
    \<and> (\<forall>e. fst result = Inl e \<longrightarrow> orFail = (Inl e, snd result))"
proof -
  obtain x1 w1 where f: "getSelectorImmediate drv sel (visible opts) w = (x1, w1)"
    by (cases "getSelectorImmediate drv sel (visible opts) w")
  obtain x3 w3 where
    n: "nativeWaitIn drv sel opts (statusPush (''Waiting for selector '' @ sel) w1) = (x3, w3)"
    by (cases "nativeWaitIn drv sel opts (statusPush (''Waiting for selector '' @ sel) w1)")
  note c = waitForSelector_cases [OF f n]
  show ?thesis
    unfolding Let_def waitForSelectorOrFail_cases f fst_conv snd_conv n c
    by (auto split: sum.splits option.splits)
qed


text \<open>
  A native wait that times out after 100 ms; and, on a driver that rejects the selector
  \<^verbatim>\<open>a[\<close>, a valid selector with no match and then the rejected one.
\<close>

theorem waitForSelector_outcomes_witness:
  "fst (getSelectorImmediate timeoutDriver ''#missing'' (visible within100) idleWorld) = Inr None
   \<and> timeoutMs within100 = Some 100
   \<and> isl (fst (nativeWaitIn timeoutDriver ''#missing'' within100
          (statusPush (''Waiting for selector '' @ ''#missing'')
             (snd (getSelectorImmediate timeoutDriver ''#missing'' (visible within100) idleWorld)))))
   \<and> waitForSelector timeoutDriver ''#missing'' within100 idleWorld =
       (Inr None,
        idleWorld\<lparr>trace := [Query 7 ''#missing'', FStatus ''Waiting for selector #missing'',
                             NativeWait 7 ''#missing'' 100 None, FStatus []]\<rparr>)
   \<and> fst (waitForSelectorOrFail timeoutDriver ''#missing'' within100 idleWorld) =
       Inl (Error ''Couldn't find required selector: #missing'')
   \<and> fst (getSelectorImmediate strictDriver ''#missing'' (visible noOptions) idleWorld) = Inr None
   \<and> timeoutMs noOptions = None
   \<and> waitForSelector strictDriver ''#missing'' noOptions idleWorld =
       (Inr None, idleWorld\<lparr>trace := [Query 7 ''#missing'']\<rparr>)
   \<and> fst (getSelectorImmediate strictDriver ''a['' (visible noOptions) idleWorld) =
       Inl (Error ''not a valid selector: a['')
   \<and> waitForSelectorOrFail strictDriver ''a['' noOptions idleWorld =
       (Inl (Error ''not a valid selector: a[''), idleWorld\<lparr>trace := [Query 7 ''a['']\<rparr>)"
proof -
  have f1: "getSelectorImmediate timeoutDriver ''#missing'' (visible within100) idleWorld =
      (Inr None, idleWorld\<lparr>trace := [Query 7 ''#missing'']\<rparr>)"
    by (simp add: getSelectorImmediate_def call_def emit_def Let_def within100_def
        timeoutDriver_def quietDriver_def idleWorld_def)
  have n1: "nativeWaitIn timeoutDriver ''#missing'' within100
          (statusPush ''Waiting for selector #missing''
             (idleWorld\<lparr>trace := [Query 7 ''#missing'']\<rparr>)) =
      (Inl (TimeoutError ''Waiting failed''),
       idleWorld\<lparr>statusStack := [''Waiting for selector #missing''],
         trace := [Query 7 ''#missing'', FStatus ''Waiting for selector #missing'',
                   NativeWait 7 ''#missing'' 100 None]\<rparr>)"
    by (simp add: nativeWaitIn_def nativeWait_def call_def statusPush_def emit_def Let_def
        topOr_def within100_def timeoutDriver_def quietDriver_def idleWorld_def)
  have p1: "statusPop False
       (idleWorld\<lparr>statusStack := [''Waiting for selector #missing''],
         trace := [Query 7 ''#missing'', FStatus ''Waiting for selector #missing'',
                   NativeWait 7 ''#missing'' 100 None]\<rparr>) =
       idleWorld\<lparr>trace := [Query 7 ''#missing'', FStatus ''Waiting for selector #missing'',
                             NativeWait 7 ''#missing'' 100 None, FStatus []]\<rparr>"
    by (simp add: statusPop_def emit_def Let_def topOr_def idleWorld_def)
  have t1: "timeoutMs within100 = Some 100" by (simp add: within100_def)
  have f2: "getSelectorImmediate strictDriver ''#missing'' (visible noOptions) idleWorld =
      (Inr None, idleWorld\<lparr>trace := [Query 7 ''#missing'']\<rparr>)"
    by (simp add: getSelectorImmediate_def call_def emit_def Let_def noOptions_def
        strictDriver_def quietDriver_def idleWorld_def)
  have t2: "timeoutMs noOptions = None" by (simp add: noOptions_def)
  have f3: "getSelectorImmediate strictDriver ''a['' (visible noOptions) idleWorld =
      (Inl (Error ''not a valid selector: a[''), idleWorld\<lparr>trace := [Query 7 ''a['']\<rparr>)"
    by (simp add: getSelectorImmediate_def call_def emit_def Let_def noOptions_def
        strictDriver_def quietDriver_def idleWorld_def)
  show ?thesis
    using waitForSelector_outcomes [of timeoutDriver "''#missing''" within100 idleWorld]
      waitForSelector_outcomes [of strictDriver "''#missing''" noOptions idleWorld]
      waitForSelector_outcomes [of strictDriver "''a[''" noOptions idleWorld]
    by (simp add: Let_def f1 n1 p1 t1 f2 t2 f3)
qed

text \<open>
  C4 as stated fails: when the immediate query itself is rejected, \<^verbatim>\<open>waitForSelector\<close>
  throws, and so does \<^verbatim>\<open>waitForSelectorOrFail\<close>, with the driver's error.
\<close>

theorem waitForSelector_throws_counterexample:
  "fst (waitForSelector strictDriver ''a['' noOptions idleWorld)
     = Inl (Error ''not a valid selector: a['')
   \<and> fst (waitForSelectorOrFail strictDriver ''a['' noOptions idleWorld)
     = Inl (Error ''not a valid selector: a['')"
  by (simp add: waitForSelectorOrFail_def waitForSelector_def getSelectorImmediate_def
      andThen_def call_def emit_def Let_def noOptions_def strictDriver_def quietDriver_def
      idleWorld_def)

section \<open>Typing\<close>

text \<open>
  With a driver that rejects nothing, the multi-line loop sends, for every line, the
  trimmed line when it is not empty and then the shift-held Enter: also after the last
  line.
\<close>

lemma shiftEnter_keys:
  assumes "\<forall>tr. rejects drv tr = None"
  shows "shiftEnter drv w =
     (Inr (), w\<lparr>trace := trace w @ [KeyboardDown ''Shift'', KeyboardPress ''Enter'', KeyboardUp ''Shift'']\<rparr>)"
  using assms by (simp add: shiftEnter_def andThen_def call_def emit_def Let_def)

lemma typeLines_keys:
  assumes "\<forall>tr. rejects drv tr = None"
  shows "typeLines drv delay ls w =
     (Inr (), w\<lparr>trace := trace w @ concat (map (lineKeys delay) ls)\<rparr>)"
proof (induction ls arbitrary: w)
  case Nil
  show ?case by simp
next
  case (Cons l ls)
  show ?case
    using assms
    by (simp add: Cons.IH shiftEnter_keys [OF assms] call_def emit_def Let_def lineKeys_def)
qed

lemma splitLines_nonempty: "splitLines s \<noteq> []"
  by (induction s) (auto split: list.splits)

lemma keys_statusPush [simp]:
  "filter isKeyboard (trace (statusPush msg w)) = filter isKeyboard (trace w)"
  by (simp add: trace_statusPush isKeyboard_def)

lemma keys_statusPop [simp]:
  "filter isKeyboard (trace (statusPop la w)) = filter isKeyboard (trace w)"
  by (simp add: trace_statusPop isKeyboard_def)

lemma wait_no_keys:
  assumes "\<forall>tr. rejects drv tr = None"
  shows "filter isKeyboard (trace (snd (wait drv ms m w))) = filter isKeyboard (trace w)"
proof (cases "m = Some Background \<and> inForeground w")
  case True
  then obtain a b c d where "trace (snd (wait drv ms m w)) =
     trace w @ [MutexRelease, FStatus a, SetTimeout ms, FStatus b,
                FStatus c, MutexAcquire, FStatus d, BringToFront (sessionPage w)]"
    using wait_background_trace [of w drv ms] by blast
  then show ?thesis by (simp add: isKeyboard_def)
next
  case False
  then have "wait drv ms m w = waitBody ms m w"
    by (auto simp: wait_def runInBackground_def)
  moreover obtain a b where
    "trace (snd (waitBody ms m w)) = trace w @ [FStatus a, SetTimeout ms, FStatus b]"
    using waitBody_trace by blast
  ultimately show ?thesis by (simp add: isKeyboard_def)
qed

text \<open>The keyboard events of \<^verbatim>\<open>typeInElement\<close> from the focus on, for every text.\<close>

lemma typeFocused_keys:
  assumes nr: "\<forall>tr. rejects drv tr = None"
  shows "fst (typeFocused drv e text opts w) = Inr ()
       \<and> filter isKeyboard (trace (snd (typeFocused drv e text opts w))) =
           filter isKeyboard (trace w)
           @ (if multiLinedShiftReturn opts = Some True
              then concat (map (lineKeys (if slowTyping opts \<noteq> Some False then 5 else 0))
                             (splitLines text))
              else [KeyboardType text (if slowTyping opts \<noteq> Some False then 5 else 0)])
           @ (if pressReturnAtEnd opts = Some True then [KeyboardPress ''Enter''] else [])"
proof -
  define d :: nat where "d = (if slowTyping opts \<noteq> Some False then 5 else 0)"
  define typed where "typed = (if multiLinedShiftReturn opts = Some True
              then concat (map (lineKeys d) (splitLines text))
              else [KeyboardType text d])"
  define enter where "enter = (if pressReturnAtEnd opts = Some True then [KeyboardPress ''Enter''] else [])"
  define w1 where "w1 = emit (Focus e) (statusPush ''Focusing'' w)"
  have s1: "call drv (Focus e) (\<lambda>_. ()) (statusPush ''Focusing'' w) = (Inr (), w1)"
    using nr by (simp add: call_cases w1_def)
  have k1: "filter isKeyboard (trace w1) = filter isKeyboard (trace w)"
    by (simp add: frame_emit isKeyboard_def w1_def)
  obtain w2 where s2: "wait drv 200 None w1 = (Inr (), w2)"
    using wait_returns [OF nr, of 200 None w1] by (cases "wait drv 200 None w1") auto
  have k2: "filter isKeyboard (trace w2) = filter isKeyboard (trace w)"
    using wait_no_keys [OF nr, of 200 None w1] s2 k1 by simp
  define w3 where
    "w3 = statusPush (''Typing '' @ showNat (length text) @ '' characters'') (statusPop False w2)"
  have k3: "filter isKeyboard (trace w3) = filter isKeyboard (trace w)"
    using k2 by (simp add: w3_def)
  define w4 where "w4 = w3\<lparr>trace := trace w3 @ typed\<rparr>"
  have s4: "(if multiLinedShiftReturn opts = Some True
             then typeLines drv d (splitLines text) w3
             else call drv (KeyboardType text d) (\<lambda>_. ()) w3) = (Inr (), w4)"
    using nr by (simp add: typeLines_keys [OF nr] call_cases emit_def w4_def typed_def)
  have kl: "filter isKeyboard (lineKeys dl l) = lineKeys dl l" for dl l
    by (simp add: lineKeys_def isKeyboard_def)
  have kc: "filter isKeyboard (concat (map (lineKeys dl) ls)) = concat (map (lineKeys dl) ls)" for dl ls
    by (induction ls) (simp_all add: kl)
  have kt: "filter isKeyboard typed = typed"
    by (simp add: typed_def kc isKeyboard_def)
  have k4: "filter isKeyboard (trace w4) = filter isKeyboard (trace w) @ typed"
    using k3 by (simp add: w4_def kt)
  define w5 where "w5 = w4\<lparr>trace := trace w4 @ enter\<rparr>"
  have s5: "(if pressReturnAtEnd opts = Some True
             then call drv (KeyboardPress ''Enter'') (\<lambda>_. ()) w4
             else (Inr (), w4)) = (Inr (), w5)"
    using nr by (simp add: call_cases emit_def w5_def enter_def)
  have ke: "filter isKeyboard enter = enter"
    by (simp add: enter_def isKeyboard_def)
  have k5: "filter isKeyboard (trace w5) = filter isKeyboard (trace w) @ typed @ enter"
    using k4 by (simp add: w5_def ke)
  define w6 where "w6 = statusPop False w5"
  have k6: "filter isKeyboard (trace w6) = filter isKeyboard (trace w) @ typed @ enter"
    using k5 by (simp add: w6_def)
  define ms where "ms = (case waitAfter opts of Some n \<Rightarrow> n | None \<Rightarrow> 100)"
  define mode where "mode = (case typeWaitIn opts of Some m \<Rightarrow> m | None \<Rightarrow> Foreground)"
  define final where "final = (if ms > 0 then wait drv ms (Some mode) w6 else (Inr (), w6))"
  have s7: "fst final = Inr ()"
    using wait_returns [OF nr] by (simp add: final_def)
  have k7: "filter isKeyboard (trace (snd final)) = filter isKeyboard (trace w) @ typed @ enter"
    using wait_no_keys [OF nr, of ms "Some mode" w6] k6 by (simp add: final_def)
  have unfold: "typeFocused drv e text opts w = final"
    unfolding typeFocused_def andThen_def Let_def s1 prod.case sum.case s2
      d_def [symmetric] w3_def [symmetric] s4 s5 w6_def [symmetric]
      ms_def [symmetric] mode_def [symmetric] final_def [symmetric]
    by (rule refl)
  show ?thesis
    using s7 k7 by (simp add: unfold typed_def enter_def d_def)
qed

text \<open>
  C9 at the text of two lines \<open>a\<close> and \<open>b\<close>, in multi-line mode: the shift-held
  Enter is sent twice, once between the lines and once after the last line. No plain
  Enter is sent, as the option for it is not set.
\<close>

theorem typeInElement_two_lines:
  "map_option (\<lambda>p. (fst p, filter isKeyboard (trace (snd p))))
     (typeInElement 0 quietDriver 3 [CHR ''a'', CHR 0x0A, CHR ''b''] multiLineOptions idleWorld)
   = Some (Inr (),
       [KeyboardType ''a'' 5, KeyboardDown ''Shift'', KeyboardPress ''Enter'', KeyboardUp ''Shift'',
        KeyboardType ''b'' 5, KeyboardDown ''Shift'', KeyboardPress ''Enter'', KeyboardUp ''Shift''])"
proof -
  have nr: "\<forall>tr. rejects quietDriver tr = None" by (simp add: quietDriver_def)
  have t: "typeInElement 0 quietDriver 3 [CHR ''a'', CHR 0x0A, CHR ''b''] multiLineOptions idleWorld
      = Some (typeFocused quietDriver 3 [CHR ''a'', CHR 0x0A, CHR ''b''] multiLineOptions idleWorld)"
    by (simp add: typeInElement_def multiLineOptions_def)
  have l: "concat (map (lineKeys 5) (splitLines [CHR ''a'', CHR 0x0A, CHR ''b''])) =
       [KeyboardType ''a'' 5, KeyboardDown ''Shift'', KeyboardPress ''Enter'', KeyboardUp ''Shift'',
        KeyboardType ''b'' 5, KeyboardDown ''Shift'', KeyboardPress ''Enter'', KeyboardUp ''Shift'']"
    by (simp add: lineKeys_def trimEnd_def isWhiteSpace_def)
  have i: "trace idleWorld = []" by (simp add: idleWorld_def)
  have m: "multiLinedShiftReturn multiLineOptions = Some True" "slowTyping multiLineOptions = None"
    "pressReturnAtEnd multiLineOptions = None"
    by (simp_all add: multiLineOptions_def)
  show ?thesis
    using typeFocused_keys [OF nr, of 3 "[CHR ''a'', CHR 0x0A, CHR ''b'']" multiLineOptions idleWorld]
    by (simp add: t i m lineKeys_def trimEnd_def isWhiteSpace_def)
qed

section \<open>A rejected bring-to-front\<close>

text \<open>
  \<^verbatim>\<open>acquireActivePage\<close> is awaited before the \<^verbatim>\<open>try\<close> block of
  \<^verbatim>\<open>runInForeground\<close>. When its \<^verbatim>\<open>bringToFront\<close> is rejected, the function is
  not run and the exception leaves with the flag set and the mutex taken.
\<close>

lemma runInForeground_acquire_rejected:
  fixes fn :: "world \<Rightarrow> 'a res"
  assumes "\<not> inForeground w" and "acquireActivePage drv w = (Inl e, w1)"
  shows "runInForeground drv fn w = (Inl e, w1)" and "inForeground w1"
    and "MutexAcquire \<in> set (trace w1)" and "MutexRelease \<notin> set (drop (length (trace w)) (trace w1))"
proof -
  show "runInForeground drv fn w = (Inl e, w1)"
    using assms by (simp add: runInForeground_def andThen_def)
  have w1: "w1 = snd (acquireActivePage drv w)" using assms(2) by simp
  show "inForeground w1" "MutexAcquire \<in> set (trace w1)"
    "MutexRelease \<notin> set (drop (length (trace w)) (trace w1))"
    by (simp_all add: w1 acquireActivePage_state)
qed

text \<open>
  C1 at a driver that rejects the bring-to-front, from a session outside the foreground
  and for every function: \<^verbatim>\<open>runInForeground\<close> throws the driver's error, the function
  has not been run, the flag is set, and the trace holds the acquisition of the mutex and
  no release.
\<close>

theorem runInForeground_bringToFront_rejected:
  fixes fn :: "world \<Rightarrow> 'a res"
  shows "runInForeground closedTabDriver fn idleWorld =
           (Inl (Error ''Protocol error (Page.bringToFront)''),
            idleWorld\<lparr>inForeground := True,
              trace := [FStatus ''Waiting for active page'', MutexAcquire, FStatus [],
                        BringToFront 7]\<rparr>)"
  by (simp add: runInForeground_def andThen_def acquireActivePage_def call_def statusPush_def
      statusPop_def emit_def Let_def topOr_def closedTabDriver_def quietDriver_def idleWorld_def)

end
